theory Spec2Isabelle
  imports Complex_Main
begin

section \<open>Python values, errors and tensors\<close>

text \<open>
  Every exception the modelled code can raise is a value of \<open>py_error\<close>; a function that
  may raise returns \<open>py_error + 'a\<close> with \<open>Inl\<close> for the exception.
\<close>

datatype py_error =
  TypeError | ValueError | IndexError | KeyError | ZeroDivisionError | RuntimeError
  | UnboundLocalError

text \<open>
  Tensors handled by the samplers are latents and noise of latent shape: they have a
  leading batch dimension (\<open>x.shape[0]\<close>) followed by the inner dimensions; the elements
  are kept flat in row-major order. A 0-dimensional torch tensor (a sigma) is a scalar of
  the model. Floating point numbers are modelled by the reals.
\<close>

record tensor =
  batch :: nat
  inner :: "nat list"
  data :: "real list"

definition shape :: "tensor \<Rightarrow> nat list" where
  "shape t = batch t # inner t"

text \<open>Elementwise arithmetic; the operands of a binary operation have the same shape
  wherever the code combines two tensors, and the result keeps the left one's.\<close>

definition tscale :: "real \<Rightarrow> tensor \<Rightarrow> tensor" where
  "tscale c t = t\<lparr>data := map (\<lambda>v. c * v) (data t)\<rparr>"

definition tmuls :: "tensor \<Rightarrow> real \<Rightarrow> tensor" where
  "tmuls t c = t\<lparr>data := map (\<lambda>v. v * c) (data t)\<rparr>"

definition tdivs :: "tensor \<Rightarrow> real \<Rightarrow> tensor" where
  "tdivs t c = t\<lparr>data := map (\<lambda>v. v / c) (data t)\<rparr>"

definition tadds :: "tensor \<Rightarrow> real \<Rightarrow> tensor" where
  "tadds t c = t\<lparr>data := map (\<lambda>v. v + c) (data t)\<rparr>"

definition tadd :: "tensor \<Rightarrow> tensor \<Rightarrow> tensor" where
  "tadd a b = a\<lparr>data := map2 (+) (data a) (data b)\<rparr>"

definition tsub :: "tensor \<Rightarrow> tensor \<Rightarrow> tensor" where
  "tsub a b = a\<lparr>data := map2 (-) (data a) (data b)\<rparr>"

definition tmul :: "tensor \<Rightarrow> tensor \<Rightarrow> tensor" where
  "tmul a b = a\<lparr>data := map2 (*) (data a) (data b)\<rparr>"

definition zeros_like :: "tensor \<Rightarrow> tensor" where
  "zeros_like t = t\<lparr>data := map (\<lambda>_. 0) (data t)\<rparr>"

text \<open>\<open>x.new_ones([x.shape[0]])\<close>: a vector of ones, one per batch entry.\<close>

definition new_ones_batch :: "tensor \<Rightarrow> tensor" where
  "new_ones_batch x = \<lparr>batch = batch x, inner = [], data = replicate (batch x) 1\<rparr>"

text \<open>
  An argument handed to a torch function that expects a tensor: the code passes either a
  tensor or a \<open>torch.Size\<close> (\<open>sample.shape\<close>). \<open>torch.randn_like\<close> takes a tensor only and
  raises \<open>TypeError\<close> on anything else; the drawn values are the argument \<open>draw\<close>.
\<close>

datatype torch_arg = Tensor_arg tensor | Size_arg "nat list"

definition randn_like :: "tensor \<Rightarrow> torch_arg \<Rightarrow> py_error + tensor" where
  "randn_like draw a = (case a of Tensor_arg t \<Rightarrow> Inr draw | Size_arg s \<Rightarrow> Inl TypeError)"

text \<open>Indexing the sigma schedule \<open>sigmas[i]\<close> with a non-negative index.\<close>

definition sigma_at :: "real list \<Rightarrow> nat \<Rightarrow> py_error + real" where
  "sigma_at sigmas i = (if i < length sigmas then Inr (sigmas ! i) else Inl IndexError)"

text \<open>The derivative utility of k-diffusion, \<open>to_d(x, sigma, denoised)\<close>, as the external
  interface gives it: \<open>(x - denoised) / sigma\<close>.\<close>

definition to_d :: "tensor \<Rightarrow> real \<Rightarrow> tensor \<Rightarrow> tensor" where
  "to_d x sigma denoised = tdivs (tsub x denoised) sigma"

section \<open>Calling a Python function\<close>

text \<open>
  A signature without \<open>*args\<close> and \<open>**kwargs\<close> is the list of its parameters, each with the
  flag "has a default". A call gives a number of positional arguments and the names of
  its keyword arguments. Python raises \<open>TypeError\<close> when there are too many positional
  arguments, when a keyword names no parameter or one already filled positionally or
  twice, and when a parameter without default stays unfilled.
\<close>

type_synonym py_signature = "(string \<times> bool) list"

definition bind_arguments :: "py_signature \<Rightarrow> nat \<Rightarrow> string list \<Rightarrow> py_error + unit" where
  "bind_arguments sig npos kws =
     (let names = map fst sig in
      if length sig < npos then Inl TypeError
      else if \<not> list_all (\<lambda>k. k \<in> set names) kws then Inl TypeError
      else if \<not> list_all (\<lambda>k. k \<notin> set (take npos names)) kws then Inl TypeError
      else if \<not> distinct kws then Inl TypeError
      else if \<not> list_all (\<lambda>(n, has_default). has_default \<or> n \<in> set kws) (drop npos sig)
        then Inl TypeError
      else Inr ())"

text \<open>A call binds its arguments, then runs the body; \<open>body\<close> is the outcome of the body
  for the arguments given.\<close>

definition py_call :: "py_signature \<Rightarrow> nat \<Rightarrow> string list \<Rightarrow> py_error + 'a \<Rightarrow> py_error + 'a" where
  "py_call sig npos kws body =
     (case bind_arguments sig npos kws of Inl e \<Rightarrow> Inl e | Inr _ \<Rightarrow> body)"

section \<open>Momentum integrator (SonarBase)\<close>

datatype HistoryType = ZERO | RAND | SAMPLE

text \<open>\<open>history_d\<close> is \<open>None\<close> until \<open>init_hist_d\<close> ran, then the integer \<open>0\<close> or a tensor.\<close>

datatype history = Hist_int_zero | Hist_tensor tensor

record SonarBase =
  history_d :: "history option"
  history_type :: HistoryType
  momentum :: real
  momentum_hist :: real
  direction :: real

text \<open>\<open>init_hist_d\<close>; \<open>rnd\<close> is what \<open>torch.randn_like(x)\<close> draws.\<close>

definition init_hist_d :: "tensor \<Rightarrow> tensor \<Rightarrow> 'a SonarBase_scheme \<Rightarrow> 'a SonarBase_scheme" where
  "init_hist_d rnd x s =
     (if history_d s \<noteq> None then s
      else case history_type s of
          ZERO \<Rightarrow> s\<lparr>history_d := Some Hist_int_zero\<rparr>
        | SAMPLE \<Rightarrow> s\<lparr>history_d := Some (Hist_tensor x)\<rparr>
        | RAND \<Rightarrow> s\<lparr>history_d := Some (Hist_tensor rnd)\<rparr>)"

text \<open>\<open>(1.0 - p) * d + p * hd\<close>: with \<open>hd\<close> the integer 0 the product \<open>p * hd\<close> is a number
  added to every element; with \<open>hd = None\<close> the product raises \<open>TypeError\<close>.\<close>

definition correct_d :: "real \<Rightarrow> tensor \<Rightarrow> history option \<Rightarrow> py_error + tensor" where
  "correct_d p d hist =
     (case hist of
        None \<Rightarrow> Inl TypeError
      | Some Hist_int_zero \<Rightarrow> Inr (tadds (tscale (1 - p) d) (p * 0))
      | Some (Hist_tensor h) \<Rightarrow> Inr (tadd (tscale (1 - p) d) (tscale p h)))"

definition momentum_step ::
  "'a SonarBase_scheme \<Rightarrow> tensor \<Rightarrow> tensor \<Rightarrow> real \<Rightarrow> py_error + tensor \<times> 'a SonarBase_scheme" where
  "momentum_step s x d dt =
     (if momentum s = 1 then Inr (tadd x (tmuls d dt), s)
      else
        let hist = history_d s;
            p = (1 - momentum s) * direction s
        in case correct_d p d hist of
             Inl e \<Rightarrow> Inl e
           | Inr momentum_d \<Rightarrow>
               let x' = tadd x (tmuls momentum_d dt);
                   q = 1 - momentum_hist s;
                   hist' = (case hist of
                            Some (Hist_tensor h) \<Rightarrow>
                              Hist_tensor (tadd (tscale (1 - q) h) (tscale q momentum_d))
                          | _ \<Rightarrow> Hist_tensor momentum_d)
               in Inr (x', s\<lparr>history_d := Some hist'\<rparr>))"

section \<open>Euler step (SonarEuler)\<close>

text \<open>\<open>model\<close> is the denoiser with its extra arguments applied: sample and the sigma
  vector \<open>sigma_hat * s_in\<close> in, denoised sample out. \<open>s_tmax\<close> is \<open>None\<close> for the default
  \<open>float("inf")\<close>.\<close>

record SonarSampler = SonarBase +
  model :: "tensor \<Rightarrow> tensor \<Rightarrow> tensor"
  sigmas :: "real list"
  s_in :: tensor

record SonarEuler = SonarSampler +
  s_churn :: real
  s_tmin :: real
  s_tmax :: "real option"
  s_noise :: real

definition in_churn_window :: "SonarEuler \<Rightarrow> real \<Rightarrow> bool" where
  "in_churn_window s sigma =
     (s_tmin s \<le> sigma \<and> (case s_tmax s of None \<Rightarrow> True | Some t \<Rightarrow> sigma \<le> t))"

text \<open>\<open>min(s_churn / (len(sigmas) - 1), 2**0.5 - 1) if s_tmin <= sigma <= s_tmax else 0.0\<close>;
  the division of a float by the integer 0 raises.\<close>

definition churn_gamma :: "SonarEuler \<Rightarrow> real \<Rightarrow> py_error + real" where
  "churn_gamma s sigma =
     (if in_churn_window s sigma
      then (if int (length (sigmas s)) - 1 = 0 then Inl ZeroDivisionError
            else Inr (min (s_churn s / real_of_int (int (length (sigmas s)) - 1)) (sqrt 2 - 1)))
      else Inr 0)"

text \<open>The result of a step: new sample, sigma, sigma_hat, denoised.\<close>

type_synonym step_result = "tensor \<times> real \<times> real \<times> tensor"

text \<open>\<open>SonarEuler.step\<close>; \<open>rnd\<close> is the draw of \<open>init_hist_d\<close>, \<open>draw\<close> the one of the churn
  noise. The churn branch calls \<open>torch.randn_like(sample.shape)\<close>.\<close>

definition SonarEuler_step ::
  "tensor \<Rightarrow> tensor \<Rightarrow> SonarEuler \<Rightarrow> nat \<Rightarrow> tensor \<Rightarrow> py_error + step_result \<times> SonarEuler" where
  "SonarEuler_step rnd draw s0 step_index sample0 =
     (let s = init_hist_d rnd sample0 s0 in
      case sigma_at (sigmas s) step_index of Inl e \<Rightarrow> Inl e | Inr sigma \<Rightarrow>
      case churn_gamma s sigma of Inl e \<Rightarrow> Inl e | Inr gamma \<Rightarrow>
      let sigma_hat = sigma * (gamma + 1) in
      case (if gamma > 0
            then (case randn_like draw (Size_arg (shape sample0)) of
                    Inl e \<Rightarrow> Inl e
                  | Inr noise \<Rightarrow>
                      let eps = tmuls noise (s_noise s)
                      in Inr (tadd sample0 (tmuls eps (sqrt (sigma_hat ^ 2 - sigma ^ 2)))))
            else Inr sample0) of Inl e \<Rightarrow> Inl e | Inr sample \<Rightarrow>
      let denoised = model s sample (tscale sigma_hat (s_in s));
          derivative = to_d sample sigma denoised
      in case sigma_at (sigmas s) (step_index + 1) of Inl e \<Rightarrow> Inl e | Inr sigma_next \<Rightarrow>
         let dt = sigma_next - sigma_hat
         in case momentum_step s sample derivative dt of
              Inl e \<Rightarrow> Inl e
            | Inr (x', s') \<Rightarrow> Inr ((x', sigma, sigma_hat, denoised), s'))"

text \<open>The payload handed to the progress callback after a step.\<close>

record callback_info =
  cb_x :: tensor
  cb_i :: nat
  cb_sigma :: real
  cb_sigma_hat :: real
  cb_denoised :: tensor

text \<open>The loop \<open>for i in trange(len(sigmas) - 1)\<close> over the remaining indices; the
  callback payloads are collected in call order.\<close>

fun SonarEuler_loop ::
  "tensor \<Rightarrow> tensor \<Rightarrow> SonarEuler \<Rightarrow> nat list \<Rightarrow> tensor \<Rightarrow> callback_info list
     \<Rightarrow> py_error + tensor \<times> callback_info list" where
  "SonarEuler_loop rnd draw s [] x cbs = Inr (x, cbs)"
| "SonarEuler_loop rnd draw s (i # is) x cbs =
     (case SonarEuler_step rnd draw s i x of
        Inl e \<Rightarrow> Inl e
      | Inr ((x', sigma, sigma_hat, denoised), s') \<Rightarrow>
          SonarEuler_loop rnd draw s' is x'
            (cbs @ [\<lparr>cb_x = x', cb_i = i, cb_sigma = sigmas s ! i,
                     cb_sigma_hat = sigma_hat, cb_denoised = denoised\<rparr>]))"

text \<open>The keyword parameters of \<open>SonarEuler.sampler\<close>.\<close>

record euler_options =
  opt_momentum :: real
  opt_momentum_hist :: real
  opt_momentum_init :: HistoryType
  opt_direction :: real
  opt_s_churn :: real
  opt_s_tmin :: real
  opt_s_tmax :: "real option"
  opt_s_noise :: real

definition SonarEuler_sampler ::
  "tensor \<Rightarrow> tensor \<Rightarrow> (tensor \<Rightarrow> tensor \<Rightarrow> tensor) \<Rightarrow> tensor \<Rightarrow> real list \<Rightarrow> euler_options
     \<Rightarrow> py_error + tensor \<times> callback_info list" where
  "SonarEuler_sampler rnd draw mdl x sgs opts =
     (let sonar = \<lparr>history_d = None, history_type = opt_momentum_init opts,
                   momentum = opt_momentum opts, momentum_hist = opt_momentum_hist opts,
                   direction = opt_direction opts,
                   model = mdl, sigmas = sgs, s_in = new_ones_batch x,
                   s_churn = opt_s_churn opts, s_tmin = opt_s_tmin opts,
                   s_tmax = opt_s_tmax opts, s_noise = opt_s_noise opts\<rparr>
      in SonarEuler_loop rnd draw sonar [0 ..< length sgs - 1] x [])"

section \<open>Noise sampler lookup and the ancestral samplers\<close>

text \<open>A bound noise sampler is a closure over random state: called with its state and
  \<open>(sigma, sigma_next)\<close> it returns the noise tensor and the state after the draw.\<close>

type_synonym 'g noise_sampler = "'g \<Rightarrow> real \<Rightarrow> real \<Rightarrow> tensor \<times> 'g"

text \<open>The parameters of \<open>get_noise_sampler\<close> in noise.py; the last four have defaults.\<close>

definition get_noise_sampler_signature :: py_signature where
  "get_noise_sampler_signature =
     [(''noise_type'', False), (''x'', False), (''sigma_min'', False), (''sigma_max'', False),
      (''seed'', True), (''cpu'', True), (''factor'', True), (''normalized'', True)]"

text \<open>A call of \<open>get_noise_sampler\<close>; the body is the lookup of the noise type in
  \<open>NOISE_SAMPLERS\<close> and the construction of the sampler.\<close>

definition get_noise_sampler :: "nat \<Rightarrow> string list \<Rightarrow> py_error + 'ns \<Rightarrow> py_error + 'ns" where
  "get_noise_sampler npos kws body = py_call get_noise_sampler_signature npos kws body"

text \<open>\<open>t.min()\<close> and \<open>t.max()\<close> of a vector; torch raises \<open>RuntimeError\<close> on an empty one.\<close>

fun tensor_min :: "real list \<Rightarrow> py_error + real" where
  "tensor_min [] = Inl RuntimeError"
| "tensor_min (v # vs) = Inr (fold min vs v)"

fun tensor_max :: "real list \<Rightarrow> py_error + real" where
  "tensor_max [] = Inl RuntimeError"
| "tensor_max (v # vs) = Inr (fold max vs v)"

text \<open>
  The first statements of \<open>SonarEulerAncestral.sampler\<close> and of \<open>SonarNaive.sampler\<close>,
  up to the noise sampler they obtain: the check of the arguments,
  \<open>sigmas[sigmas > 0].min()\<close> and \<open>sigmas.max()\<close>, and the call
  \<open>noise.get_noise_sampler(noise_type, x, sigma_min, sigma_max, seed=None, use_cpu=True)\<close>.
  \<open>supplied\<close> tells whether the caller passed a \<open>noise_sampler\<close>.
\<close>

definition ancestral_bind :: "string \<Rightarrow> bool \<Rightarrow> real list \<Rightarrow> py_error + 'ns \<Rightarrow> py_error + 'ns" where
  "ancestral_bind noise_type supplied sgs body =
     (if noise_type \<noteq> ''gaussian'' \<and> supplied then Inl ValueError
      else case tensor_min (filter (\<lambda>v. v > 0) sgs) of Inl e \<Rightarrow> Inl e | Inr sigma_min \<Rightarrow>
           case tensor_max sgs of Inl e \<Rightarrow> Inl e | Inr sigma_max \<Rightarrow>
           get_noise_sampler 4 [''seed'', ''use_cpu''] body)"

record 'g SonarEulerAncestral = SonarSampler +
  ea_noise_sampler :: "'g noise_sampler"
  ea_gen :: 'g
  ea_eta :: real
  ea_s_noise :: real

text \<open>\<open>SonarEulerAncestral.step\<close>; \<open>gas\<close> is k-diffusion's \<open>get_ancestral_step\<close>.\<close>

definition SonarEulerAncestral_step ::
  "(real \<Rightarrow> real \<Rightarrow> real \<Rightarrow> real \<times> real) \<Rightarrow> tensor \<Rightarrow> 'g SonarEulerAncestral \<Rightarrow> nat \<Rightarrow> tensor
     \<Rightarrow> py_error + step_result \<times> 'g SonarEulerAncestral" where
  "SonarEulerAncestral_step gas rnd s0 step_index sample =
     (let s = init_hist_d rnd sample s0 in
      case sigma_at (sigmas s) step_index of Inl e \<Rightarrow> Inl e | Inr sigma_from \<Rightarrow>
      case sigma_at (sigmas s) (step_index + 1) of Inl e \<Rightarrow> Inl e | Inr sigma_to \<Rightarrow>
      let (sigma_down, sigma_up) = gas sigma_from sigma_to (ea_eta s);
          denoised = model s sample (tscale sigma_from (s_in s));
          derivative = to_d sample sigma_from denoised;
          dt = sigma_down - sigma_from
      in case momentum_step s sample derivative dt of
           Inl e \<Rightarrow> Inl e
         | Inr (result_sample, s') \<Rightarrow>
             (if sigma_to > 0
              then let (n, g') = ea_noise_sampler s' (ea_gen s') sigma_from sigma_to
                   in Inr ((tadd result_sample (tmuls (tmuls n (ea_s_noise s')) sigma_up),
                            sigma_from, sigma_from, denoised), s'\<lparr>ea_gen := g'\<rparr>)
              else Inr ((result_sample, sigma_from, sigma_from, denoised), s')))"

fun SonarEulerAncestral_loop ::
  "(real \<Rightarrow> real \<Rightarrow> real \<Rightarrow> real \<times> real) \<Rightarrow> tensor \<Rightarrow> 'g SonarEulerAncestral \<Rightarrow> nat list \<Rightarrow> tensor
     \<Rightarrow> callback_info list \<Rightarrow> py_error + tensor \<times> callback_info list" where
  "SonarEulerAncestral_loop gas rnd s [] x cbs = Inr (x, cbs)"
| "SonarEulerAncestral_loop gas rnd s (i # is) x cbs =
     (case SonarEulerAncestral_step gas rnd s i x of
        Inl e \<Rightarrow> Inl e
      | Inr ((x', sigma, sigma_hat, denoised), s') \<Rightarrow>
          SonarEulerAncestral_loop gas rnd s' is x'
            (cbs @ [\<lparr>cb_x = x', cb_i = i, cb_sigma = sigmas s ! i,
                     cb_sigma_hat = sigma_hat, cb_denoised = denoised\<rparr>]))"

text \<open>The keyword parameters the two ancestral samplers share.\<close>

record ancestral_options =
  ao_momentum :: real
  ao_momentum_hist :: real
  ao_momentum_init :: HistoryType
  ao_noise_type :: string
  ao_direction :: real
  ao_s_noise :: real
  ao_noise_sampler_supplied :: bool

text \<open>\<open>SonarEulerAncestral.sampler\<close>; \<open>body\<close> is what the body of \<open>get_noise_sampler\<close>
  yields for these arguments: a sampler with its initial random state.\<close>

definition SonarEulerAncestral_sampler ::
  "(real \<Rightarrow> real \<Rightarrow> real \<Rightarrow> real \<times> real) \<Rightarrow> tensor \<Rightarrow> py_error + 'g noise_sampler \<times> 'g
     \<Rightarrow> (tensor \<Rightarrow> tensor \<Rightarrow> tensor) \<Rightarrow> tensor \<Rightarrow> real list \<Rightarrow> ancestral_options \<Rightarrow> real
     \<Rightarrow> py_error + tensor \<times> callback_info list" where
  "SonarEulerAncestral_sampler gas rnd body mdl x sgs opts eta =
     (case ancestral_bind (ao_noise_type opts) (ao_noise_sampler_supplied opts) sgs body of
        Inl e \<Rightarrow> Inl e
      | Inr (ns, g) \<Rightarrow>
          let sonar = \<lparr>history_d = None, history_type = ao_momentum_init opts,
                       momentum = ao_momentum opts, momentum_hist = ao_momentum_hist opts,
                       direction = ao_direction opts,
                       model = mdl, sigmas = sgs, s_in = new_ones_batch x,
                       ea_noise_sampler = ns, ea_gen = g, ea_eta = eta,
                       ea_s_noise = ao_s_noise opts\<rparr>
          in SonarEulerAncestral_loop gas rnd sonar [0 ..< length sgs - 1] x [])"

section \<open>Guidance engine and the naive sampler\<close>

datatype GuidanceType = LINEAR | EULER

text \<open>torch's reductions \<open>t.mean(dim=dims, keepdim=True)\<close> and \<open>t.std(dim=dims, keepdim=True)\<close>,
  each expanded to the shape of \<open>t\<close>, are parameters of the model.\<close>

record torch_stats =
  t_mean :: "nat list \<Rightarrow> tensor \<Rightarrow> tensor"
  t_std :: "nat list \<Rightarrow> tensor \<Rightarrow> tensor"

definition tdiv :: "tensor \<Rightarrow> tensor \<Rightarrow> tensor" where
  "tdiv a b = a\<lparr>data := map2 (/) (data a) (data b)\<rparr>"

definition prepare_ref_latent :: "torch_stats \<Rightarrow> tensor option \<Rightarrow> tensor option" where
  "prepare_ref_latent ts latent =
     (case latent of
        None \<Rightarrow> None
      | Some l \<Rightarrow>
          let avg_s = t_mean ts [2, 3] l; std_s = t_std ts [2, 3] l
          in Some (tdiv (tsub l avg_s) std_s))"

record 'g SonarNaive = SonarSampler +
  nv_noise_sampler :: "'g noise_sampler"
  nv_gen :: 'g
  nv_s_noise :: real
  ref_latent :: "tensor option"
  guidance_factor :: real
  guidance_type :: "GuidanceType option"

text \<open>
  \<open>SonarGuidanceMixin.__init__\<close>: the latent is a dictionary (or \<open>None\<close>, the default)
  and the constructor reads \<open>ref_latent["samples"]\<close>. It yields the three attributes it
  sets: \<open>ref_latent\<close>, \<open>guidance_factor\<close>, \<open>guidance_type\<close>.
\<close>

definition SonarGuidanceMixin_init ::
  "torch_stats \<Rightarrow> GuidanceType option \<Rightarrow> (string \<rightharpoonup> tensor option) option \<Rightarrow> real
     \<Rightarrow> py_error + tensor option \<times> real \<times> GuidanceType option" where
  "SonarGuidanceMixin_init ts gtype latent gfactor =
     (case latent of
        None \<Rightarrow> Inl TypeError
      | Some d \<Rightarrow>
          (case d ''samples'' of
             None \<Rightarrow> Inl KeyError
           | Some samples \<Rightarrow> Inr (prepare_ref_latent ts samples, gfactor, gtype)))"

definition guidance_euler ::
  "torch_stats \<Rightarrow> 'g SonarNaive \<Rightarrow> tensor \<Rightarrow> nat \<Rightarrow> tensor \<Rightarrow> tensor \<Rightarrow> py_error + tensor" where
  "guidance_euler ts s ref step_index x denoised =
     (let avg_t = t_mean ts [1, 2, 3] denoised;
          std_t = t_std ts [1, 2, 3] denoised;
          ref_img_shift = tadd (tmul ref std_t) avg_t
      in case sigma_at (sigmas s) step_index of Inl e \<Rightarrow> Inl e | Inr sigma \<Rightarrow>
         case sigma_at (sigmas s) (step_index + 1) of Inl e \<Rightarrow> Inl e | Inr sigma_next \<Rightarrow>
         let d = to_d x sigma ref_img_shift;
             dt = (sigma_next - sigma) * guidance_factor s
         in Inr (tadd x (tmuls d dt)))"

definition guidance_linear :: "torch_stats \<Rightarrow> 'g SonarNaive \<Rightarrow> tensor \<Rightarrow> tensor \<Rightarrow> tensor" where
  "guidance_linear ts s ref x =
     (let avg_t = t_mean ts [1, 2, 3] x;
          std_t = t_std ts [1, 2, 3] x;
          ref_img_shift = tadd (tmul ref std_t) avg_t
      in tadd (tscale (1 - guidance_factor s) x) (tscale (guidance_factor s) ref_img_shift))"

definition guidance_step ::
  "torch_stats \<Rightarrow> 'g SonarNaive \<Rightarrow> nat \<Rightarrow> tensor \<Rightarrow> tensor \<Rightarrow> py_error + tensor" where
  "guidance_step ts s step_index x denoised =
     (case (ref_latent s, guidance_type s) of
        (Some ref, Some gt) \<Rightarrow>
          if guidance_factor s = 0 then Inr x
          else (case gt of
                  LINEAR \<Rightarrow> Inr (guidance_linear ts s ref x)
                | EULER \<Rightarrow> guidance_euler ts s ref step_index x denoised)
      | _ \<Rightarrow> Inr x)"

text \<open>\<open>SonarNaive.__init__\<close>: the fields of the base classes, then the guidance mixin's
  constructor with \<open>ref_latent=guidance_latent\<close>, then the sampler's own fields.\<close>

definition SonarNaive_init ::
  "torch_stats \<Rightarrow> 'g noise_sampler \<Rightarrow> 'g \<Rightarrow> real \<Rightarrow> GuidanceType option
     \<Rightarrow> (string \<rightharpoonup> tensor option) option \<Rightarrow> real \<Rightarrow> SonarSampler \<Rightarrow> py_error + 'g SonarNaive" where
  "SonarNaive_init ts ns g sn gtype guidance_latent gfactor base =
     (case SonarGuidanceMixin_init ts gtype guidance_latent gfactor of
        Inl e \<Rightarrow> Inl e
      | Inr (ref, gf, gt) \<Rightarrow>
          Inr \<lparr>history_d = history_d base, history_type = history_type base,
               momentum = momentum base, momentum_hist = momentum_hist base,
               direction = direction base,
               model = model base, sigmas = sigmas base, s_in = s_in base,
               nv_noise_sampler = ns, nv_gen = g, nv_s_noise = sn,
               ref_latent = ref, guidance_factor = gf, guidance_type = gt\<rparr>)"

definition SonarNaive_step ::
  "torch_stats \<Rightarrow> (real \<Rightarrow> real \<Rightarrow> real \<Rightarrow> real \<times> real) \<Rightarrow> tensor \<Rightarrow> 'g SonarNaive \<Rightarrow> nat \<Rightarrow> tensor
     \<Rightarrow> py_error + step_result \<times> 'g SonarNaive" where
  "SonarNaive_step ts gas rnd s0 step_index sample =
     (let s = init_hist_d rnd sample s0 in
      case sigma_at (sigmas s) step_index of Inl e \<Rightarrow> Inl e | Inr sigma_from \<Rightarrow>
      case sigma_at (sigmas s) (step_index + 1) of Inl e \<Rightarrow> Inl e | Inr sigma_to \<Rightarrow>
      let (sigma_down, sigma_up) = gas sigma_from sigma_to 1;
          denoised = model s sample (tscale sigma_from (s_in s));
          derivative = to_d sample sigma_from denoised;
          dt = sigma_down - sigma_from
      in case momentum_step s sample derivative dt of
           Inl e \<Rightarrow> Inl e
         | Inr (result_sample, s') \<Rightarrow>
             (if sigma_to > 0
              then (case guidance_step ts s' step_index result_sample denoised of
                      Inl e \<Rightarrow> Inl e
                    | Inr guided \<Rightarrow>
                        let (n, g') = nv_noise_sampler s' (nv_gen s') sigma_from sigma_to
                        in Inr ((tadd guided (tmuls (tmuls n (nv_s_noise s')) sigma_up),
                                 sigma_from, sigma_from, denoised), s'\<lparr>nv_gen := g'\<rparr>))
              else Inr ((result_sample, sigma_from, sigma_from, denoised), s')))"

fun SonarNaive_loop ::
  "torch_stats \<Rightarrow> (real \<Rightarrow> real \<Rightarrow> real \<Rightarrow> real \<times> real) \<Rightarrow> tensor \<Rightarrow> 'g SonarNaive \<Rightarrow> nat list
     \<Rightarrow> tensor \<Rightarrow> callback_info list \<Rightarrow> py_error + tensor \<times> callback_info list" where
  "SonarNaive_loop ts gas rnd s [] x cbs = Inr (x, cbs)"
| "SonarNaive_loop ts gas rnd s (i # is) x cbs =
     (case SonarNaive_step ts gas rnd s i x of
        Inl e \<Rightarrow> Inl e
      | Inr ((x', sigma, sigma_hat, denoised), s') \<Rightarrow>
          SonarNaive_loop ts gas rnd s' is x'
            (cbs @ [\<lparr>cb_x = x', cb_i = i, cb_sigma = sigmas s ! i,
                     cb_sigma_hat = sigma_hat, cb_denoised = denoised\<rparr>]))"

definition SonarNaive_sampler ::
  "torch_stats \<Rightarrow> (real \<Rightarrow> real \<Rightarrow> real \<Rightarrow> real \<times> real) \<Rightarrow> tensor \<Rightarrow> py_error + 'g noise_sampler \<times> 'g
     \<Rightarrow> (tensor \<Rightarrow> tensor \<Rightarrow> tensor) \<Rightarrow> tensor \<Rightarrow> real list \<Rightarrow> ancestral_options
     \<Rightarrow> GuidanceType option \<Rightarrow> (string \<rightharpoonup> tensor option) option \<Rightarrow> real
     \<Rightarrow> py_error + tensor \<times> callback_info list" where
  "SonarNaive_sampler ts gas rnd body mdl x sgs opts gtype guidance_latent gfactor =
     (case ancestral_bind (ao_noise_type opts) (ao_noise_sampler_supplied opts) sgs body of
        Inl e \<Rightarrow> Inl e
      | Inr (ns, g) \<Rightarrow>
          (case SonarNaive_init ts ns g (ao_s_noise opts) gtype guidance_latent gfactor
                  \<lparr>history_d = None, history_type = ao_momentum_init opts,
                   momentum = ao_momentum opts, momentum_hist = ao_momentum_hist opts,
                   direction = ao_direction opts,
                   model = mdl, sigmas = sgs, s_in = new_ones_batch x\<rparr> of
             Inl e \<Rightarrow> Inl e
           | Inr sonar \<Rightarrow> SonarNaive_loop ts gas rnd sonar [0 ..< length sgs - 1] x []))"

section \<open>Noise combinators\<close>

text \<open>
  Modelled from the spec: \<open>scale_noise(noise, factor=1.0, normalized=...)\<close> of the module
  noise_generation. A normalized tensor is rescaled to unit standard deviation and then
  multiplied by \<open>factor\<close>; otherwise it is multiplied by \<open>factor\<close> directly. The
  rescaling to unit standard deviation is the parameter \<open>unit_std\<close>.
\<close>

definition scale_noise :: "(tensor \<Rightarrow> tensor) \<Rightarrow> tensor \<Rightarrow> real \<Rightarrow> bool \<Rightarrow> tensor" where
  "scale_noise unit_std noise fac normalized =
     (if normalized then tmuls (unit_std noise) fac else tmuls noise fac)"

subsection \<open>GuidedNoise\<close>

record 'g GuidedNoise =
  gn_factor :: real
  gn_guidance_factor :: real
  gn_ref_latent :: tensor
  gn_noise_sampler :: "'g noise_sampler"
  gn_method :: string
  gn_normalize :: "bool option"
  gn_normalize_ref :: bool

text \<open>What \<open>make_noise_sampler\<close> leaves in the closure of the sampler it returns.\<close>

record 'g guided_sampler =
  gs_normalize :: bool
  gs_ns :: "'g noise_sampler"
  gs_ref_latent :: tensor
  gs_method :: string

text \<open>The methods of \<open>SonarGuidanceMixin\<close> in sonar.py, as noise.py imports them:
  \<open>guidance_linear(self, x)\<close> and \<open>guidance_euler(self, step_index, x, denoised)\<close>.\<close>

definition guidance_linear_signature :: py_signature where
  "guidance_linear_signature = [(''self'', False), (''x'', False)]"

definition guidance_euler_signature :: py_signature where
  "guidance_euler_signature =
     [(''self'', False), (''step_index'', False), (''x'', False), (''denoised'', False)]"

text \<open>\<open>GuidedNoise.make_noise_sampler\<close>; a method other than "linear" and "euler" defines
  no \<open>noise_sampler\<close> and the \<open>return\<close> fails.\<close>

definition GuidedNoise_make_noise_sampler ::
  "(tensor \<Rightarrow> tensor) \<Rightarrow> 'g GuidedNoise \<Rightarrow> bool \<Rightarrow> py_error + 'g guided_sampler" where
  "GuidedNoise_make_noise_sampler unit_std spec normalized =
     (let normalize = (case gn_normalize spec of Some b \<Rightarrow> b | None \<Rightarrow> normalized);
          ns = gn_noise_sampler spec;
          ref = scale_noise unit_std (gn_ref_latent spec) 1 (gn_normalize_ref spec)
      in if gn_method spec = ''linear'' \<or> gn_method spec = ''euler''
         then Inr \<lparr>gs_normalize = normalize, gs_ns = ns, gs_ref_latent = ref,
                   gs_method = gn_method spec\<rparr>
         else Inl UnboundLocalError)"

text \<open>
  A call \<open>noise_sampler(s, sn)\<close> of the returned sampler. The "linear" sampler calls
  \<open>SonarGuidanceMixin.guidance_linear\<close> on the class with three positional arguments, the
  "euler" one \<open>guidance_euler\<close> with six; \<open>linear_body\<close> and \<open>euler_body\<close> are the bodies
  of the two methods on the bound arguments.
\<close>

definition GuidedNoise_call ::
  "(tensor \<Rightarrow> tensor) \<Rightarrow> (tensor \<Rightarrow> tensor \<Rightarrow> real \<Rightarrow> py_error + tensor)
     \<Rightarrow> (tensor \<Rightarrow> tensor \<Rightarrow> real \<Rightarrow> py_error + tensor)
     \<Rightarrow> 'g GuidedNoise \<Rightarrow> 'g guided_sampler \<Rightarrow> 'g \<Rightarrow> real \<Rightarrow> real \<Rightarrow> py_error + tensor \<times> 'g" where
  "GuidedNoise_call unit_std linear_body euler_body spec bound g s sn =
     (let (n, g') = gs_ns bound g s sn;
          subject = scale_noise unit_std n 1 (gs_normalize bound)
      in case (if gs_method bound = ''linear''
               then py_call guidance_linear_signature 3 []
                      (linear_body subject (gs_ref_latent bound) (gn_guidance_factor spec))
               else py_call guidance_euler_signature 6 []
                      (euler_body subject (gs_ref_latent bound) (gn_guidance_factor spec))) of
           Inl e \<Rightarrow> Inl e
         | Inr guided \<Rightarrow>
             Inr (scale_noise unit_std guided (gn_factor spec) (gs_normalize bound), g'))"

subsection \<open>RepeatedNoise\<close>

text \<open>Python indexing of a list: a negative index counts from the end.\<close>

definition py_index :: "'a list \<Rightarrow> int \<Rightarrow> py_error + 'a" where
  "py_index xs i =
     (if 0 \<le> i \<and> i < int (length xs) then Inr (xs ! nat i)
      else if i < 0 \<and> - int (length xs) \<le> i then Inr (xs ! nat (int (length xs) + i))
      else Inl IndexError)"

function chunks :: "nat \<Rightarrow> 'a list \<Rightarrow> 'a list list" where
  "chunks n xs = (if n = 0 \<or> xs = [] then [] else take n xs # chunks n (drop n xs))"
  by pat_completeness auto
termination
  by (relation "measure (\<lambda>(n, xs). length xs)") auto

declare chunks.simps [simp del]

text \<open>\<open>torch.flip(t, (d,))\<close> and \<open>torch.roll(t, count, dims=(d,))\<close> on the flat data: the
  tensor is cut into blocks spanning dimension \<open>d\<close>, each block into its \<open>shape[d]\<close>
  slices, and the slices are reversed, or moved up by \<open>count\<close> places with wrap-around.\<close>

definition flip_dim :: "tensor \<Rightarrow> nat \<Rightarrow> tensor" where
  "flip_dim t d =
     (let slice = prod_list (drop (Suc d) (shape t));
          block = (shape t ! d) * slice
      in t\<lparr>data := concat (map (\<lambda>b. concat (rev (chunks slice b))) (chunks block (data t)))\<rparr>)"

definition roll_dim :: "tensor \<Rightarrow> nat \<Rightarrow> nat \<Rightarrow> tensor" where
  "roll_dim t count d =
     (let slice = prod_list (drop (Suc d) (shape t));
          block = (shape t ! d) * slice
      in t\<lparr>data := concat (map (\<lambda>b. concat (rotate (shape t ! d - count) (chunks slice b)))
                                 (chunks block (data t)))\<rparr>)"

text \<open>A dimension given as a Python integer; \<open>-1\<close> is the last one.\<close>

definition torch_flip :: "tensor \<Rightarrow> int \<Rightarrow> tensor" where
  "torch_flip t dm =
     flip_dim t (nat (if dm < 0 then dm + int (length (shape t)) else dm))"

record RepeatedNoise =
  rn_factor :: real
  rn_normalize :: "bool option"
  rn_repeat_length :: int
  rn_permute :: bool

text \<open>The closure of the returned sampler: the resolved \<open>normalize\<close>, the base sampler
  \<open>ns\<close> with its random state, and the cache \<open>noise_items\<close>.\<close>

record 'g repeated_sampler =
  rs_normalize :: bool
  rs_ns :: "'g noise_sampler"
  rs_gen :: 'g
  noise_items :: "tensor list"

definition permute_options :: nat where
  "permute_options = 2"

definition u32_max :: nat where
  "u32_max = 4294967295"

definition RepeatedNoise_make_noise_sampler ::
  "RepeatedNoise \<Rightarrow> 'g noise_sampler \<Rightarrow> 'g \<Rightarrow> bool \<Rightarrow> 'g repeated_sampler" where
  "RepeatedNoise_make_noise_sampler spec ns g normalized =
     \<lparr>rs_normalize = (case rn_normalize spec of Some b \<Rightarrow> b | None \<Rightarrow> normalized),
      rs_ns = ns, rs_gen = g, noise_items = []\<rparr>"

text \<open>The permutation chosen by the draws \<open>rands[1..3]\<close>.\<close>

definition permute_noise :: "nat \<Rightarrow> nat \<Rightarrow> nat \<Rightarrow> tensor \<Rightarrow> py_error + tensor" where
  "permute_noise r1 r2 r3 noise =
     (let noise_dims = length (shape noise) in
      if r1 mod permute_options = 0
      then (if r2 \<le> u32_max div 10 then Inr noise
            else Inr (torch_flip noise (- 1 + int (r2 mod (noise_dims + 1)))))
      else (let dm = r2 mod noise_dims in
            if shape noise ! dm = 0 then Inl ZeroDivisionError
            else Inr (roll_dim noise (r3 mod (shape noise ! dm)) dm)))"

text \<open>A call \<open>noise_sampler(s, sn)\<close> of the returned sampler; \<open>rands\<close> are the four
  values drawn from the sampler's own generator at this call.\<close>

definition RepeatedNoise_call ::
  "(tensor \<Rightarrow> tensor) \<Rightarrow> RepeatedNoise \<Rightarrow> 'g repeated_sampler \<Rightarrow> nat \<times> nat \<times> nat \<times> nat
     \<Rightarrow> real \<Rightarrow> real \<Rightarrow> py_error + tensor \<times> 'g repeated_sampler" where
  "RepeatedNoise_call unit_std spec st rands s sn =
     (case rands of (r0, r1, r2, r3) \<Rightarrow>
      case (if int (length (noise_items st)) < rn_repeat_length spec
            then (let (n, g') = rs_ns st (rs_gen st) s sn
                  in Inr (int (length (noise_items st)),
                          st\<lparr>rs_gen := g', noise_items := noise_items st @ [n]\<rparr>))
            else if rn_repeat_length spec = 0 then Inl ZeroDivisionError
            else Inr (int r0 mod rn_repeat_length spec, st)) of
        Inl e \<Rightarrow> Inl e
      | Inr (idx, st') \<Rightarrow>
          (case py_index (noise_items st') idx of
             Inl e \<Rightarrow> Inl e
           | Inr noise \<Rightarrow>
               if \<not> rn_permute spec then Inr (noise, st')
               else (case permute_noise r1 r2 r3 noise of
                       Inl e \<Rightarrow> Inl e
                     | Inr permuted \<Rightarrow>
                         Inr (scale_noise unit_std permuted (rn_factor spec) (rs_normalize st'),
                              st'))))"

subsection \<open>CustomNoiseChain\<close>

text \<open>
  Noise items are mutable objects: \<open>set_factor\<close> writes a field. The heap is the list of
  all items allocated so far, an item's reference is its position, and a chain is the list
  of the references of its items. \<open>item_params\<close> stands for an item's other attributes.
\<close>

record noise_item =
  factor :: real
  item_params :: "(string \<times> string) list"

type_synonym heap = "noise_item list"
type_synonym chain = "nat list"

text \<open>\<open>CustomNoiseChain.clone\<close>: every item is cloned, in order, into a fresh object.\<close>

definition clone_chain :: "heap \<Rightarrow> chain \<Rightarrow> chain \<times> heap" where
  "clone_chain h c = ([length h ..< length h + length c], h @ map (\<lambda>a. h ! a) c)"

definition chain_factor :: "heap \<Rightarrow> chain \<Rightarrow> real" where
  "chain_factor h c = sum_list (map (\<lambda>a. \<bar>factor (h ! a)\<bar>) c)"

definition set_factor :: "nat \<Rightarrow> real \<Rightarrow> heap \<Rightarrow> heap" where
  "set_factor a f h = h[a := (h ! a)\<lparr>factor := f\<rparr>]"

text \<open>The divisor of \<open>rescaled\<close>: \<open>self.factor / scale\<close>, replaced by 1 when it is 0.\<close>

definition rescale_divisor :: "heap \<Rightarrow> chain \<Rightarrow> real \<Rightarrow> real" where
  "rescale_divisor h c scale =
     (if chain_factor h c / scale \<noteq> 0 then chain_factor h c / scale else 1)"

text \<open>\<open>CustomNoiseChain.rescaled\<close>; dividing a float by zero raises.\<close>

definition rescaled :: "heap \<Rightarrow> chain \<Rightarrow> real \<Rightarrow> py_error + chain \<times> heap" where
  "rescaled h c scale =
     (if scale = 0 then Inl ZeroDivisionError
      else let divisor = rescale_divisor h c scale;
               (result, h1) = clone_chain h c
           in if divisor \<noteq> 1
              then Inr (result, fold (\<lambda>i hp. set_factor i (factor (hp ! i) / divisor) hp) result h1)
              else Inr (result, h1))"

text \<open>A chain is well formed in a heap when its references are allocated.\<close>

definition chain_ok :: "heap \<Rightarrow> chain \<Rightarrow> bool" where
  "chain_ok h c = list_all (\<lambda>a. a < length h) c"

section \<open>Example values\<close>

definition ex_noise :: tensor where
  "ex_noise = \<lparr>batch = 1, inner = [2], data = [1, 3]\<rparr>"

definition ex_base :: "unit noise_sampler" where
  "ex_base = (\<lambda>g s sn. (ex_noise, g))"

definition ex_stats :: torch_stats where
  "ex_stats = \<lparr>t_mean = (\<lambda>dims t. zeros_like t), t_std = (\<lambda>dims t. t)\<rparr>"

definition ex_options :: ancestral_options where
  "ex_options = \<lparr>ao_momentum = 19 / 20, ao_momentum_hist = 3 / 4, ao_momentum_init = ZERO,
     ao_noise_type = ''gaussian'', ao_direction = 1, ao_s_noise = 1,
     ao_noise_sampler_supplied = False\<rparr>"

definition ex_euler :: SonarEuler where
  "ex_euler = \<lparr>history_d = None, history_type = ZERO, momentum = 19 / 20,
     momentum_hist = 3 / 4, direction = 1,
     model = (\<lambda>x sg. zeros_like x), sigmas = [1, 0], s_in = new_ones_batch ex_noise,
     s_churn = 1, s_tmin = 0, s_tmax = None, s_noise = 1\<rparr>"

definition ex_base_state :: SonarBase where
  "ex_base_state = \<lparr>history_d = Some Hist_int_zero, history_type = ZERO, momentum = 1 / 2,
     momentum_hist = 3 / 4, direction = 1\<rparr>"

definition ex_heap :: heap where
  "ex_heap = [\<lparr>factor = 1, item_params = [(''noise_type'', ''gaussian'')]\<rparr>,
              \<lparr>factor = - 3, item_params = [(''noise_type'', ''perlin'')]\<rparr>]"

section \<open>Properties of the momentum integrator\<close>

lemma map2_same_left: "map2 f xs (map g xs) = map (\<lambda>v. f v (g v)) xs"
  by (induction xs) auto

lemma map2_const_right: "map2 f xs (map (\<lambda>_. c) xs) = map (\<lambda>v. f v c) xs"
  by (induction xs) auto

lemma tadds_zero: "tadds t 0 = t"
  by (simp add: tadds_def)

text \<open>
  C9. With \<open>momentum = 1.0\<close> the momentum step returns exactly \<open>x + d * dt\<close> and leaves
  the whole integrator state, the history included, as it was: whatever
  \<open>momentum_hist\<close>, \<open>direction\<close>, the history type and the history (unset, 0 or a tensor)
  are.
\<close>

theorem momentum_one_is_plain_euler:
  "momentum_step (s\<lparr>momentum := 1\<rparr>) x d dt = Inr (tadd x (tmuls d dt), s\<lparr>momentum := 1\<rparr>)"
  by (simp add: momentum_step_def)

text \<open>
  C8. With \<open>momentum \<noteq> 1.0\<close> and an initialised history (the integer 0 or a tensor), the
  momentum step returns \<open>x + momentum_d * dt\<close> where \<open>p = (1 - m) * dir\<close> and
  \<open>momentum_d = (1 - p) * d + p * history\<close>; the stored history becomes \<open>momentum_d\<close> when
  it was the integer 0, and \<open>(1 - (1 - h)) * history + (1 - h) * momentum_d\<close> otherwise.
\<close>

theorem momentum_step_general:
  assumes "momentum s \<noteq> 1" and "history_d s = Some h0"
  shows "momentum_step s x d dt =
     (let p = (1 - momentum s) * direction s;
          momentum_d = (case h0 of
                          Hist_int_zero \<Rightarrow> tscale (1 - p) d
                        | Hist_tensor h \<Rightarrow> tadd (tscale (1 - p) d) (tscale p h))
      in Inr (tadd x (tmuls momentum_d dt),
              s\<lparr>history_d := Some (case h0 of
                  Hist_int_zero \<Rightarrow> Hist_tensor momentum_d
                | Hist_tensor h \<Rightarrow>
                    Hist_tensor (tadd (tscale (1 - (1 - momentum_hist s)) h)
                                      (tscale (1 - momentum_hist s) momentum_d)))\<rparr>))"
  using assms
  by (cases h0) (simp_all add: momentum_step_def correct_d_def Let_def tadds_zero)

theorem momentum_step_general_witness:
  "momentum ex_base_state \<noteq> 1 \<and> history_d ex_base_state = Some Hist_int_zero
   \<and> momentum_step ex_base_state \<lparr>batch = 1, inner = [2], data = [4, 8]\<rparr>
        \<lparr>batch = 1, inner = [2], data = [4, 8]\<rparr> (- 1 / 2)
     = Inr (\<lparr>batch = 1, inner = [2], data = [3, 6]\<rparr>,
            ex_base_state\<lparr>history_d :=
              Some (Hist_tensor \<lparr>batch = 1, inner = [2], data = [2, 4]\<rparr>)\<rparr>)"
  using momentum_step_general [of ex_base_state Hist_int_zero
      "\<lparr>batch = 1, inner = [2], data = [4, 8]\<rparr>" "\<lparr>batch = 1, inner = [2], data = [4, 8]\<rparr>"
      "- 1 / 2"]
  by (simp add: ex_base_state_def Let_def tadd_def tmuls_def tscale_def)

section \<open>Properties of the Euler sampler\<close>

lemma euler_update_zero_denoised:
  "sigma \<noteq> 0 \<Longrightarrow> tadd x (tmuls (to_d x sigma (zeros_like x)) dt) = tscale (1 + dt / sigma) x"
  by (simp add: tadd_def tmuls_def to_d_def tdivs_def tsub_def zeros_like_def tscale_def
      map2_const_right map2_same_left o_def field_simps)

lemma tscale_zero_tscale: "tscale 0 (tscale c x) = zeros_like x"
  by (simp add: tscale_def zeros_like_def o_def)

lemma zeros_like_tscale: "zeros_like (tscale c x) = zeros_like x"
  by (simp add: tscale_def zeros_like_def o_def)

lemma gamma_no_churn:
  "s_churn s = 0 \<Longrightarrow> length (sigmas s) \<noteq> 1 \<Longrightarrow> churn_gamma s sigma = Inr 0"
  by (auto simp: churn_gamma_def min_def)

lemma init_hist_d_keeps:
  "sigmas (init_hist_d rnd x s) = sigmas s" "s_churn (init_hist_d rnd x s) = s_churn s"
  "s_tmin (init_hist_d rnd x s) = s_tmin s" "s_tmax (init_hist_d rnd x s) = s_tmax s"
  "momentum (init_hist_d rnd x s) = momentum s" "model (init_hist_d rnd x s) = model s"
  by (auto simp: init_hist_d_def split: HistoryType.splits)

lemma euler_step_zero_denoiser:
  assumes "momentum s = 1" "s_churn s = 0" "model s = (\<lambda>x sg. zeros_like x)"
    and "Suc i < length (sigmas s)" "sigmas s ! i \<noteq> 0"
  shows "SonarEuler_step rnd draw s i x =
     Inr ((tscale (1 + (sigmas s ! Suc i - sigmas s ! i) / (sigmas s ! i)) x,
           sigmas s ! i, sigmas s ! i, zeros_like x), init_hist_d rnd x s)"
proof -
  let ?s = "init_hist_d rnd x s"
  have g: "churn_gamma ?s (sigmas s ! i) = Inr 0"
    using assms by (intro gamma_no_churn) (auto simp: init_hist_d_keeps)
  have m: "momentum_step ?s x d dt = Inr (tadd x (tmuls d dt), ?s)" for d dt
    using assms(1) by (simp add: momentum_step_def init_hist_d_keeps)
  show ?thesis
    using assms g
    by (simp add: SonarEuler_step_def Let_def sigma_at_def m euler_update_zero_denoised
        init_hist_d_keeps)
qed

text \<open>
  C7. With the schedule \<open>[1.0, 0.5, 0.0]\<close>, \<open>momentum = 1.0\<close>, \<open>s_churn = 0\<close> and a
  denoiser that returns a zero tensor, \<open>SonarEuler.sampler\<close> produces \<open>0.5 * x0\<close> after
  step 0 (sigma and sigma_hat 1) and the zero tensor after step 1 (sigma and sigma_hat
  0.5), which is the final output; this holds for every initial tensor and whatever the
  other options are. The callback payloads show the sample after each step.
\<close>

theorem euler_end_to_end:
  "SonarEuler_sampler rnd draw (\<lambda>x sg. zeros_like x) x0 [1, 1/2, 0]
     \<lparr>opt_momentum = 1, opt_momentum_hist = mh, opt_momentum_init = mi, opt_direction = dir,
      opt_s_churn = 0, opt_s_tmin = tmin, opt_s_tmax = tmax, opt_s_noise = sn\<rparr>
   = Inr (zeros_like x0,
          [\<lparr>cb_x = tscale (1/2) x0, cb_i = 0, cb_sigma = 1, cb_sigma_hat = 1,
            cb_denoised = zeros_like x0\<rparr>,
           \<lparr>cb_x = zeros_like x0, cb_i = 1, cb_sigma = 1/2, cb_sigma_hat = 1/2,
            cb_denoised = zeros_like x0\<rparr>])"
proof -
  define s0 :: SonarEuler where "s0 = \<lparr>history_d = None, history_type = mi,
                   momentum = 1, momentum_hist = mh, direction = dir,
                   model = (\<lambda>x sg. zeros_like x), sigmas = [1, 1/2, 0], s_in = new_ones_batch x0,
                   s_churn = 0, s_tmin = tmin, s_tmax = tmax, s_noise = sn\<rparr>"
  define s1 where "s1 = init_hist_d rnd x0 s0"
  have p0: "momentum s0 = 1" "s_churn s0 = 0" "model s0 = (\<lambda>x sg. zeros_like x)"
    "sigmas s0 = [1, 1/2, 0]"
    by (simp_all add: s0_def)
  have p1: "momentum s1 = 1" "s_churn s1 = 0" "model s1 = (\<lambda>x sg. zeros_like x)"
    "sigmas s1 = [1, 1/2, 0]"
    using p0 by (simp_all add: s1_def init_hist_d_keeps)
  have st0: "SonarEuler_step rnd draw s0 0 x0 =
      Inr ((tscale (1/2) x0, 1, 1, zeros_like x0), s1)"
    using euler_step_zero_denoiser [of s0 0 rnd draw x0] p0 by (simp add: s1_def)
  have st1: "SonarEuler_step rnd draw s1 (Suc 0) (tscale (1/2) x0) =
      Inr ((zeros_like x0, 1/2, 1/2, zeros_like x0), init_hist_d rnd (tscale (1/2) x0) s1)"
    using euler_step_zero_denoiser [of s1 "Suc 0" rnd draw "tscale (1/2) x0"] p1
    by (simp add: tscale_zero_tscale zeros_like_tscale)
  have idx: "[0 ..< length [1::real, 1/2, 0] - 1] = [0, 1]"
    by (simp add: upt_rec)
  show ?thesis
    unfolding SonarEuler_sampler_def Let_def idx
    by (simp add: s0_def [symmetric] st0 st1 p0 p1)
qed

text \<open>
  C5. The churn branch of \<open>SonarEuler.step\<close> does not add noise: whenever \<open>s_churn > 0\<close>
  and \<open>s_tmin \<le> sigma \<le> s_tmax\<close> (on a schedule of at least one step) \<open>gamma\<close> is
  positive, the step calls \<open>torch.randn_like\<close> on \<open>sample.shape\<close>, which is not a tensor,
  and raises \<open>TypeError\<close> before the denoiser is invoked.
\<close>

theorem euler_churn_raises:
  assumes "s_churn s > 0" and "in_churn_window s (sigmas s ! i)"
    and "i < length (sigmas s)" and "2 \<le> length (sigmas s)"
  shows "SonarEuler_step rnd draw s i x = Inl TypeError"
proof -
  let ?s = "init_hist_d rnd x s"
  let ?g = "min (s_churn s / real_of_int (int (length (sigmas s)) - 1)) (sqrt 2 - 1)"
  have w: "in_churn_window ?s (sigmas s ! i)"
    using assms(2) by (simp add: in_churn_window_def init_hist_d_keeps)
  have "0 < s_churn s / real_of_int (int (length (sigmas s)) - 1)"
    using assms(1,4) by simp
  then have pos: "0 < ?g" by simp
  have g: "churn_gamma ?s (sigmas s ! i) = Inr ?g"
    using w assms(4) by (simp add: churn_gamma_def init_hist_d_keeps)
  show ?thesis
    using assms(3) g pos
    by (simp add: SonarEuler_step_def Let_def sigma_at_def init_hist_d_keeps randn_like_def)
qed

theorem euler_churn_raises_witness:
  "s_churn ex_euler > 0 \<and> in_churn_window ex_euler (sigmas ex_euler ! 0)
   \<and> 0 < length (sigmas ex_euler) \<and> 2 \<le> length (sigmas ex_euler)
   \<and> SonarEuler_step ex_noise ex_noise ex_euler 0 ex_noise = Inl TypeError"
proof -
  have h: "s_churn ex_euler > 0" "in_churn_window ex_euler (sigmas ex_euler ! 0)"
    "0 < length (sigmas ex_euler)" "2 \<le> length (sigmas ex_euler)"
    by (simp_all add: ex_euler_def in_churn_window_def)
  show ?thesis
    using h euler_churn_raises [OF h, of ex_noise ex_noise ex_noise] by simp
qed

section \<open>Properties of the ancestral samplers and of guidance\<close>

lemma use_cpu_rejected: "get_noise_sampler 4 [''seed'', ''use_cpu''] body = Inl TypeError"
  by (simp add: get_noise_sampler_def py_call_def bind_arguments_def
      get_noise_sampler_signature_def)

lemma tensor_min_nonempty: "vs \<noteq> [] \<Longrightarrow> \<exists>m. tensor_min vs = Inr m"
  by (cases vs) auto

lemma tensor_max_nonempty: "vs \<noteq> [] \<Longrightarrow> \<exists>m. tensor_max vs = Inr m"
  by (cases vs) auto

lemma ancestral_bind_outcome:
  "ancestral_bind nt False sgs body =
     (if \<exists>v\<in>set sgs. v > 0 then Inl TypeError else Inl RuntimeError)"
proof (cases "\<exists>v\<in>set sgs. v > 0")
  case True
  then have ne: "filter (\<lambda>v. v > 0) sgs \<noteq> []" "sgs \<noteq> []"
    by (auto simp: filter_empty_conv)
  obtain m1 m2 where "tensor_min (filter (\<lambda>v. v > 0) sgs) = Inr m1" "tensor_max sgs = Inr m2"
    using tensor_min_nonempty [OF ne(1)] tensor_max_nonempty [OF ne(2)] by blast
  with True show ?thesis
    by (simp add: ancestral_bind_def use_cpu_rejected)
next
  case False
  then have "filter (\<lambda>v. v > 0) sgs = []"
    by (auto simp: filter_empty_conv)
  with False show ?thesis
    by (simp add: ancestral_bind_def)
qed

text \<open>
  C1, as the code has it. When no noise sampler is supplied, the first statements of
  \<open>SonarEulerAncestral.sampler\<close> and of \<open>SonarNaive.sampler\<close> always raise, so neither
  sampler ever runs a step: the exception is the \<open>TypeError\<close> of the keyword \<open>use_cpu\<close>
  that \<open>get_noise_sampler\<close> does not take whenever the schedule has a positive sigma, and
  the \<open>RuntimeError\<close> of the minimum of an empty tensor when it has none.
\<close>

theorem ancestral_samplers_never_step:
  fixes body :: "py_error + 'g noise_sampler \<times> 'g"
  shows "ancestral_bind (ao_noise_type opts) False sgs body =
       (if \<exists>v\<in>set sgs. v > 0 then Inl TypeError else Inl RuntimeError)
   \<and> SonarEulerAncestral_sampler gas rnd body mdl x sgs
       (opts\<lparr>ao_noise_sampler_supplied := False\<rparr>) eta =
       (if \<exists>v\<in>set sgs. v > 0 then Inl TypeError else Inl RuntimeError)
   \<and> SonarNaive_sampler ts gas rnd body mdl x sgs
       (opts\<lparr>ao_noise_sampler_supplied := False\<rparr>) gtype glatent gfactor =
       (if \<exists>v\<in>set sgs. v > 0 then Inl TypeError else Inl RuntimeError)"
  by (simp add: SonarEulerAncestral_sampler_def SonarNaive_sampler_def ancestral_bind_outcome)

theorem ancestral_samplers_never_step_witness:
  "ancestral_bind ''gaussian'' False [1, 0] (Inr (ex_base, ())) = Inl TypeError
   \<and> SonarEulerAncestral_sampler (\<lambda>a b c. (b, 0)) ex_noise (Inr (ex_base, ()))
       (\<lambda>x sg. zeros_like x) ex_noise [1, 0] ex_options 1 = Inl TypeError
   \<and> SonarNaive_sampler ex_stats (\<lambda>a b c. (b, 0)) ex_noise (Inr (ex_base, ()))
       (\<lambda>x sg. zeros_like x) ex_noise [1, 0] ex_options None None 0 = Inl TypeError"
  using ancestral_samplers_never_step [of ex_options "[1, 0]" "Inr (ex_base, ())"
      "\<lambda>a b c. (b, 0)" ex_noise "\<lambda>x sg. zeros_like x" ex_noise 1 ex_stats None None 0]
  by (simp add: ex_options_def)

text \<open>C1 as stated fails on a schedule without a positive sigma: the exception raised
  there is not a \<open>TypeError\<close>.\<close>

theorem ancestral_sampler_zero_schedule:
  "SonarEulerAncestral_sampler (\<lambda>a b c. (b, 0)) ex_noise (Inr (ex_base, ()))
     (\<lambda>x sg. zeros_like x) ex_noise [0] ex_options 1 = Inl RuntimeError"
  by (simp add: SonarEulerAncestral_sampler_def ancestral_bind_def ex_options_def)

text \<open>
  C6. The guidance step is to return its input when the reference latent is absent, also
  for a sampler built without a reference latent. The constructor does not get that far:
  with \<open>guidance_latent\<close> left at \<open>None\<close>, \<open>SonarGuidanceMixin.__init__\<close> subscripts \<open>None\<close>
  and raises \<open>TypeError\<close>, and so does \<open>SonarNaive.__init__\<close>.
\<close>

theorem guidance_init_without_latent_raises:
  "SonarGuidanceMixin_init ts gtype None gfactor = Inl TypeError
   \<and> SonarNaive_init ts ns g sn gtype None gfactor base = Inl TypeError"
  by (simp add: SonarGuidanceMixin_init_def SonarNaive_init_def)

text \<open>On a sampler that was constructed, the guard of \<open>guidance_step\<close> works as described.\<close>

lemma guidance_step_noop:
  "ref_latent s = None \<or> guidance_type s = None \<or> guidance_factor s = 0
     \<Longrightarrow> guidance_step ts s step_index x denoised = Inr x"
  by (auto simp: guidance_step_def split: option.splits)

section \<open>Properties of the noise combinators\<close>

text \<open>
  C2. A "linear" GuidedNoise sampler is to return the guided, scaled noise. Binding
  succeeds, but every call of the returned sampler raises \<open>TypeError\<close>: it calls
  \<open>SonarGuidanceMixin.guidance_linear\<close> with three positional arguments, and that method
  takes two (\<open>self\<close>, \<open>x\<close>).
\<close>

theorem guided_linear_call_raises:
  "(case GuidedNoise_make_noise_sampler unit_std (spec\<lparr>gn_method := ''linear''\<rparr>) normalized of
      Inl e \<Rightarrow> False
    | Inr bound \<Rightarrow>
        GuidedNoise_call unit_std linear_body euler_body (spec\<lparr>gn_method := ''linear''\<rparr>)
          bound g s sn = Inl TypeError)"
  by (simp add: GuidedNoise_make_noise_sampler_def GuidedNoise_call_def Let_def py_call_def
      bind_arguments_def guidance_linear_signature_def split: prod.splits)

lemma py_index_last: "py_index (xs @ [n]) (int (length xs)) = Inr n"
  by (simp add: py_index_def)

text \<open>
  C3. With \<open>permute=False\<close> the sampler is to pass the cache entry through the final
  factor scaling. It returns the entry as it is: with factor 2 and no normalization the
  entry \<open>[1, 3]\<close> comes back as \<open>[1, 3]\<close>, where the scaling step gives \<open>[2, 6]\<close>.
\<close>

theorem repeated_no_permute_unscaled:
  "RepeatedNoise_call (\<lambda>t. t)
     \<lparr>rn_factor = 2, rn_normalize = Some False, rn_repeat_length = 1, rn_permute = False\<rparr>
     (RepeatedNoise_make_noise_sampler
        \<lparr>rn_factor = 2, rn_normalize = Some False, rn_repeat_length = 1, rn_permute = False\<rparr>
        ex_base () True)
     (0, 0, 0, 0) 1 0
   = Inr (\<lparr>batch = 1, inner = [2], data = [1, 3]\<rparr>,
          \<lparr>rs_normalize = False, rs_ns = ex_base, rs_gen = (),
           noise_items = [\<lparr>batch = 1, inner = [2], data = [1, 3]\<rparr>]\<rparr>)
   \<and> scale_noise (\<lambda>t. t) \<lparr>batch = 1, inner = [2], data = [1, 3]\<rparr> 2 False
     = \<lparr>batch = 1, inner = [2], data = [2, 6]\<rparr>"
  by (simp add: RepeatedNoise_call_def RepeatedNoise_make_noise_sampler_def ex_base_def
      ex_noise_def py_index_def scale_noise_def tmuls_def)

lemma chunks_Nil: "chunks n [] = []"
  by (simp add: chunks.simps)

lemma chunks_Cons: "n \<noteq> 0 \<Longrightarrow> chunks n (x # xs) = take n (x # xs) # chunks n (drop n (x # xs))"
  by (subst chunks.simps) simp

lemma flip_example: "torch_flip ex_noise 1 = \<lparr>batch = 1, inner = [2], data = [3, 1]\<rparr>"
  by (simp add: torch_flip_def flip_dim_def shape_def ex_noise_def chunks_Nil chunks_Cons)

lemma permute_example:
  "permute_noise 0 429496730 0 ex_noise = Inr \<lparr>batch = 1, inner = [2], data = [3, 1]\<rparr>"
proof -
  have "shape ex_noise = [1, 2]" by (simp add: shape_def ex_noise_def)
  then show ?thesis
    using flip_example
    by (simp add: permute_noise_def permute_options_def u32_max_def)
qed

text \<open>
  C4, as the code has it. With \<open>permute=True\<close>, a call made while the cache holds fewer
  than \<open>repeat_length\<close> entries draws a fresh tensor from the base sampler and appends it
  to the cache unchanged; the tensor returned is that fresh tensor put through the same
  flip or roll selection as a cached entry, then scaled.
\<close>

theorem repeated_fill_then_permute:
  assumes "int (length (noise_items st)) < rn_repeat_length spec" and "rn_permute spec"
    and "rs_ns st (rs_gen st) s sn = (n, g')"
  shows "RepeatedNoise_call unit_std spec st (r0, r1, r2, r3) s sn =
     (case permute_noise r1 r2 r3 n of
        Inl e \<Rightarrow> Inl e
      | Inr permuted \<Rightarrow>
          Inr (scale_noise unit_std permuted (rn_factor spec) (rs_normalize st),
               st\<lparr>rs_gen := g', noise_items := noise_items st @ [n]\<rparr>))"
  using assms by (simp add: RepeatedNoise_call_def py_index_last split: sum.splits)

theorem repeated_fill_then_permute_witness:
  "RepeatedNoise_call (\<lambda>t. t)
     \<lparr>rn_factor = 1, rn_normalize = Some False, rn_repeat_length = 1, rn_permute = True\<rparr>
     \<lparr>rs_normalize = False, rs_ns = ex_base, rs_gen = (), noise_items = []\<rparr>
     (0, 0, 429496730, 0) 1 0
   = Inr (scale_noise (\<lambda>t. t) \<lparr>batch = 1, inner = [2], data = [3, 1]\<rparr> 1 False,
          \<lparr>rs_normalize = False, rs_ns = ex_base, rs_gen = (), noise_items = [ex_noise]\<rparr>)"
  using repeated_fill_then_permute [of
      "\<lparr>rs_normalize = False, rs_ns = ex_base, rs_gen = (), noise_items = []\<rparr>"
      "\<lparr>rn_factor = 1, rn_normalize = Some False, rn_repeat_length = 1, rn_permute = True\<rparr>"
      1 0 ex_noise "()" "\<lambda>t. t" 0 0 429496730 0]
    permute_example
  by (simp add: ex_base_def)

text \<open>C4 as stated fails: on the first use of a fresh tensor \<open>[1, 3]\<close> the sampler
  returns it flipped, \<open>[3, 1]\<close>, while the cache keeps \<open>[1, 3]\<close>.\<close>

theorem repeated_first_use_flipped:
  "RepeatedNoise_call (\<lambda>t. t)
     \<lparr>rn_factor = 1, rn_normalize = Some False, rn_repeat_length = 1, rn_permute = True\<rparr>
     (RepeatedNoise_make_noise_sampler
        \<lparr>rn_factor = 1, rn_normalize = Some False, rn_repeat_length = 1, rn_permute = True\<rparr>
        ex_base () True)
     (0, 0, 429496730, 0) 1 0
   = Inr (\<lparr>batch = 1, inner = [2], data = [3, 1]\<rparr>,
          \<lparr>rs_normalize = False, rs_ns = ex_base, rs_gen = (),
           noise_items = [\<lparr>batch = 1, inner = [2], data = [1, 3]\<rparr>]\<rparr>)"
proof -
  have "permute_noise 0 429496730 0 \<lparr>batch = 1, inner = [2], data = [1, 3]\<rparr>
          = Inr \<lparr>batch = 1, inner = [2], data = [3, 1]\<rparr>"
    using permute_example by (simp add: ex_noise_def)
  then show ?thesis
    by (simp add: RepeatedNoise_call_def RepeatedNoise_make_noise_sampler_def ex_base_def
      ex_noise_def py_index_def scale_noise_def tmuls_def)
qed

subsection \<open>CustomNoiseChain\<close>

lemma fold_set_factor_fresh:
  "fold (\<lambda>i hp. set_factor i (factor (hp ! i) / dv) hp)
        [length h ..< length h + length xs] (h @ xs)
   = h @ map (\<lambda>it. it\<lparr>factor := factor it / dv\<rparr>) xs"
proof (induction xs arbitrary: h)
  case Nil
  then show ?case by simp
next
  case (Cons x xs)
  have "[length h ..< length h + length (x # xs)]
          = length h # [length (h @ [x\<lparr>factor := factor x / dv\<rparr>])
                         ..< length (h @ [x\<lparr>factor := factor x / dv\<rparr>]) + length xs]"
    by (simp add: upt_rec)
  moreover have "set_factor (length h) (factor ((h @ x # xs) ! length h) / dv) (h @ x # xs)
          = (h @ [x\<lparr>factor := factor x / dv\<rparr>]) @ xs"
    by (simp add: set_factor_def)
  ultimately show ?case
    using Cons.IH [of "h @ [x\<lparr>factor := factor x / dv\<rparr>]"] by simp
qed

lemma map_nth_fresh:
  "map (\<lambda>a. f ((h @ ys) ! a)) [length h ..< length h + length ys] = map f ys"
  by (rule nth_equalityI) (simp_all add: nth_append)

lemma chain_factor_nonneg: "0 \<le> chain_factor h c"
  unfolding chain_factor_def by (induction c) simp_all

lemma chain_factor_old:
  "chain_ok h c \<Longrightarrow> chain_factor (h @ ys) c = chain_factor h c"
  unfolding chain_factor_def chain_ok_def
  by (induction c) (simp_all add: nth_append)

lemma sum_list_div:
  "sum_list (map (\<lambda>a. g a / dv) c) = sum_list (map g c) / (dv :: real)"
  by (induction c) (simp_all add: add_divide_distrib)

lemma rescaled_result:
  assumes "scale \<noteq> 0"
  shows "rescaled h c scale =
     Inr ([length h ..< length h + length c],
          h @ map (\<lambda>a. (h ! a)\<lparr>factor := factor (h ! a) / rescale_divisor h c scale\<rparr>) c)"
proof (cases "rescale_divisor h c scale = 1")
  case True
  then show ?thesis
    using assms by (simp add: rescaled_def clone_chain_def rescale_divisor_def Let_def)
next
  case False
  have "fold (\<lambda>i hp. set_factor i (factor (hp ! i) / rescale_divisor h c scale) hp)
          [length h ..< length h + length (map (\<lambda>a. h ! a) c)] (h @ map (\<lambda>a. h ! a) c)
        = h @ map (\<lambda>it. it\<lparr>factor := factor it / rescale_divisor h c scale\<rparr>) (map (\<lambda>a. h ! a) c)"
    by (rule fold_set_factor_fresh)
  then show ?thesis
    using assms False
    by (simp add: rescaled_def clone_chain_def rescale_divisor_def Let_def o_def)
qed

text \<open>
  C10, as the code has it. \<open>chain.factor\<close> is the sum of the absolute child factors. For
  a target scale \<open>s \<noteq> 0\<close>, \<open>rescaled(s)\<close> returns a clone made of fresh items and leaves
  every existing item, so the original chain and its factor, as they were; the clone's
  children keep their other attributes and have the original factors divided by
  \<open>chain.factor / s\<close>, the divisor being 1 when that quotient is 0; the clone's factor is
  \<open>|s|\<close> when \<open>chain.factor \<noteq> 0\<close> and 0 otherwise.
\<close>

theorem rescaled_clone:
  assumes "chain_ok h c" and "scale \<noteq> 0"
  shows "\<exists>c' h'. rescaled h c scale = Inr (c', h')
     \<and> take (length h) h' = h
     \<and> chain_factor h' c = chain_factor h c
     \<and> c' = [length h ..< length h + length c]
     \<and> map (\<lambda>a. factor (h' ! a)) c' =
         map (\<lambda>a. factor (h ! a) / rescale_divisor h c scale) c
     \<and> map (\<lambda>a. item_params (h' ! a)) c' = map (\<lambda>a. item_params (h ! a)) c
     \<and> chain_factor h' c' = (if chain_factor h c = 0 then 0 else \<bar>scale\<bar>)"
proof -
  let ?dv = "rescale_divisor h c scale"
  let ?ys = "map (\<lambda>a. (h ! a)\<lparr>factor := factor (h ! a) / ?dv\<rparr>) c"
  let ?c' = "[length h ..< length h + length c]"
  have r: "rescaled h c scale = Inr (?c', h @ ?ys)"
    using assms(2) by (rule rescaled_result)
  have len: "length ?ys = length c" by simp
  have f: "map (\<lambda>a. factor ((h @ ?ys) ! a)) ?c' = map (\<lambda>a. factor (h ! a) / ?dv) c"
    using map_nth_fresh [of factor h ?ys] by (simp add: o_def)
  have p: "map (\<lambda>a. item_params ((h @ ?ys) ! a)) ?c' = map (\<lambda>a. item_params (h ! a)) c"
    using map_nth_fresh [of item_params h ?ys] by (simp add: o_def)
  have "chain_factor (h @ ?ys) ?c' = sum_list (map (\<lambda>a. \<bar>factor (h ! a) / ?dv\<bar>) c)"
    using map_nth_fresh [of "\<lambda>it. \<bar>factor it\<bar>" h ?ys] by (simp add: chain_factor_def o_def)
  also have "\<dots> = chain_factor h c / \<bar>?dv\<bar>"
    by (simp add: sum_list_div chain_factor_def)
  also have "\<dots> = (if chain_factor h c = 0 then 0 else \<bar>scale\<bar>)"
    using assms(2) chain_factor_nonneg [of h c]
    by (simp add: rescale_divisor_def abs_mult)
  finally have cf: "chain_factor (h @ ?ys) ?c' = (if chain_factor h c = 0 then 0 else \<bar>scale\<bar>)" .
  show ?thesis
    using r f p cf chain_factor_old [OF assms(1), of ?ys] by simp
qed

text \<open>C10 as stated fails for a target scale that is zero or negative: \<open>rescaled(0)\<close>
  raises, and \<open>rescaled(-2)\<close> of a chain with factors 1 and -3 gives a clone with factors
  -1/2 and 3/2, whose factor is 2, not -2.\<close>

theorem rescaled_zero_and_negative_scale:
  "rescaled ex_heap [0, 1] 0 = Inl ZeroDivisionError
   \<and> rescaled ex_heap [0, 1] (- 2) =
       Inr ([2, 3], ex_heap @ [\<lparr>factor = - 1 / 2, item_params = [(''noise_type'', ''gaussian'')]\<rparr>,
                              \<lparr>factor = 3 / 2, item_params = [(''noise_type'', ''perlin'')]\<rparr>])
   \<and> chain_factor (ex_heap @ [\<lparr>factor = - 1 / 2, item_params = [(''noise_type'', ''gaussian'')]\<rparr>,
                              \<lparr>factor = 3 / 2, item_params = [(''noise_type'', ''perlin'')]\<rparr>]) [2, 3] = 2"
  by (simp add: rescaled_def rescale_divisor_def clone_chain_def chain_factor_def
      set_factor_def ex_heap_def upt_rec Let_def)

theorem rescaled_clone_witness:
  "chain_ok ex_heap [0, 1] \<and> (2::real) \<noteq> 0
   \<and> (\<exists>c' h'. rescaled ex_heap [0, 1] 2 = Inr (c', h')
        \<and> take (length ex_heap) h' = ex_heap
        \<and> map (\<lambda>a. factor (h' ! a)) c' = [1 / 2, - 3 / 2]
        \<and> chain_factor h' c' = 2)"
proof -
  have h: "chain_ok ex_heap [0, 1]" "(2::real) \<noteq> 0"
    by (simp_all add: chain_ok_def ex_heap_def)
  have cf: "chain_factor ex_heap [0, 1] = 4"
    by (simp add: chain_factor_def ex_heap_def)
  have dv: "rescale_divisor ex_heap [0, 1] 2 = 2"
    unfolding rescale_divisor_def cf by simp
  have fs: "map (\<lambda>a. factor (ex_heap ! a) / 2) [0, 1] = [1 / 2, - 3 / 2]"
    by (simp add: ex_heap_def)
  obtain c' h' where r: "rescaled ex_heap [0, 1] 2 = Inr (c', h')"
    "take (length ex_heap) h' = ex_heap"
    "map (\<lambda>a. factor (h' ! a)) c' =
       map (\<lambda>a. factor (ex_heap ! a) / rescale_divisor ex_heap [0, 1] 2) [0, 1]"
    "chain_factor h' c' = (if chain_factor ex_heap [0, 1] = 0 then 0 else \<bar>2\<bar>)"
    using rescaled_clone [OF h] by blast
  have f: "map (\<lambda>a. factor (h' ! a)) c' = [1 / 2, - 3 / 2]"
    using r(3) unfolding dv fs .
  have t: "chain_factor h' c' = 2"
    using r(4) unfolding cf by simp
  show ?thesis
    using h(1) h(2) r(1) r(2) f t by (intro conjI exI [of _ c'] exI [of _ h'])
qed

end
